theory Spec2Isabelle
  imports Main "HOL-Library.Sublist"
begin

section \<open>RichMediaPopup: the focus-mode popup component\<close>

text \<open>
  A shallow embedding of \<^verbatim>\<open>src/components/customRules/RichMediaPopup.tsx\<close>.

  JavaScript strings are modelled as \<^typ>\<open>string\<close>: every \<^typ>\<open>char\<close> stands for one
  code unit below 256. A value of type \<^verbatim>\<open>string | undefined\<close> or \<^verbatim>\<open>string | null\<close> is a
  \<^typ>\<open>string option\<close>.

  The two listeners are created inside the effect of line 23: they read \<^verbatim>\<open>lastShownAppId\<close>
  and \<^verbatim>\<open>notificationData\<close> as they were when that effect last ran, and the setters they
  call write the state cells. The effect runs again (line 112) when React has rendered
  the changed cells; until then the listeners go on reading the old values.
\<close>

subsection \<open>JavaScript values and string operations\<close>

text \<open>Truthiness of an optional string: \<^verbatim>\<open>undefined\<close>, \<^verbatim>\<open>null\<close> and \<^verbatim>\<open>""\<close> are falsy.\<close>

fun truthy :: "string option \<Rightarrow> bool" where
  "truthy None = False"
| "truthy (Some s) = (s \<noteq> [])"

text \<open>\<^verbatim>\<open>a || b\<close> on optional strings.\<close>

definition js_or :: "string option \<Rightarrow> string option \<Rightarrow> string option" where
  "js_or a b = (if truthy a then a else b)"

text \<open>\<^verbatim>\<open>a || b\<close> where \<^verbatim>\<open>b\<close> is a string.\<close>

fun orElse :: "string option \<Rightarrow> string \<Rightarrow> string" where
  "orElse None d = d"
| "orElse (Some s) d = (if s = [] then d else s)"

text \<open>\<^verbatim>\<open>\d\<close> without the unicode flag: the ten ASCII digits.\<close>

definition isDigit :: "char \<Rightarrow> bool" where
  "isDigit c = (c \<in> set ''0123456789'')"

text \<open>The line terminators below 256; \<^verbatim>\<open>.\<close> matches every code unit but these.\<close>

definition isLineTerminator :: "char \<Rightarrow> bool" where
  "isLineTerminator c = (c = CHR 0x0A \<or> c = CHR 0x0D)"

text \<open>
  What \<^verbatim>\<open>trim()\<close> strips, below 256: tab, line feed, vertical tab, form feed, carriage
  return, space and the no-break space.
\<close>

definition isWhiteSpace :: "char \<Rightarrow> bool" where
  "isWhiteSpace c = (c \<in> set [CHR 0x09, CHR 0x0A, CHR 0x0B, CHR 0x0C, CHR 0x0D, CHR 0x20, CHR 0xA0])"

definition trim :: "string \<Rightarrow> string" where
  "trim s = rev (dropWhile isWhiteSpace (rev (dropWhile isWhiteSpace s)))"

text \<open>
  The first occurrence of a search string: the text before it and the text after it
  (\<^verbatim>\<open>indexOf\<close>, then the two substrings \<^verbatim>\<open>replace\<close> takes).
\<close>

fun splitFirst :: "string \<Rightarrow> string \<Rightarrow> (string \<times> string) option" where
  "splitFirst pat [] = (if pat = [] then Some ([], []) else None)"
| "splitFirst pat (c # cs) =
     (if prefix pat (c # cs) then Some ([], drop (length pat) (c # cs))
      else (case splitFirst pat cs of
              None \<Rightarrow> None
            | Some (pre, post) \<Rightarrow> Some (c # pre, post)))"

text \<open>
  The replacement patterns of \<^verbatim>\<open>String.prototype.replace\<close> when the search value is a
  string (no capture groups): \<^verbatim>\<open>$$\<close> is a dollar sign, \<^verbatim>\<open>$&\<close> the matched text,
  \<^verbatim>\<open>$`\<close> the text before the match, \<^verbatim>\<open>$'\<close> the text after it; any other dollar
  sign stands for itself.
\<close>

fun getSubstitution :: "string \<Rightarrow> string \<Rightarrow> string \<Rightarrow> string \<Rightarrow> string" where
  "getSubstitution matched pre post [] = []"
| "getSubstitution matched pre post [c] = [c]"
| "getSubstitution matched pre post (c # d # r) =
     (if c = CHR ''$'' then
        (if d = CHR ''$'' then CHR ''$'' # getSubstitution matched pre post r
         else if d = CHR ''&'' then matched @ getSubstitution matched pre post r
         else if d = CHR 0x60 then pre @ getSubstitution matched pre post r
         else if d = CHR 0x27 then post @ getSubstitution matched pre post r
         else CHR ''$'' # getSubstitution matched pre post (d # r))
      else c # getSubstitution matched pre post (d # r))"

text \<open>\<^verbatim>\<open>s.replace(pat, repl)\<close> with a string \<^verbatim>\<open>pat\<close>: the first occurrence only.\<close>

definition js_replace :: "string \<Rightarrow> string \<Rightarrow> string \<Rightarrow> string" where
  "js_replace pat repl s =
     (case splitFirst pat s of
        None \<Rightarrow> s
      | Some (pre, post) \<Rightarrow> pre @ getSubstitution pat pre post repl @ post)"

subsection \<open>The regular expression \<^verbatim>\<open>/focus-mode-(.*?)-\d+/\<close>\<close>

text \<open>\<^verbatim>\<open>-\d+\<close> matches at the front of the text: a dash and at least one digit.\<close>

fun dashDigits :: "string \<Rightarrow> bool" where
  "dashDigits (c # d # r) = (c = CHR ''-'' \<and> isDigit d)"
| "dashDigits r = False"

text \<open>
  The lazy group \<^verbatim>\<open>(.*?)\<close>: it grows by one code unit at a time and stops as soon as
  \<^verbatim>\<open>-\d+\<close> matches after it; it cannot grow over a line terminator or the end.
\<close>

fun lazyGroup :: "string \<Rightarrow> string \<Rightarrow> string option" where
  "lazyGroup acc [] = None"
| "lazyGroup acc (c # cs) =
     (if dashDigits (c # cs) then Some acc
      else if isLineTerminator c then None
      else lazyGroup (acc @ [c]) cs)"

text \<open>One attempt, at the start position given by the text.\<close>

definition matchAt :: "string \<Rightarrow> string option" where
  "matchAt s =
     (if prefix ''focus-mode-'' s then lazyGroup [] (drop (length ''focus-mode-'') s)
      else None)"

text \<open>
  \<^verbatim>\<open>notificationId.match(...)\<close> followed by \<^verbatim>\<open>appIdMatch ? appIdMatch[1] : null\<close>: the
  start positions are tried from left to right; the result is capture group 1 of the
  first match, \<^const>\<open>None\<close> when there is no match.
\<close>

fun appIdMatch :: "string \<Rightarrow> string option" where
  "appIdMatch [] = None"
| "appIdMatch (c # cs) =
     (case matchAt (c # cs) of
        Some g \<Rightarrow> Some g
      | None \<Rightarrow> appIdMatch cs)"

subsection \<open>Data model\<close>

record notification_data =
  title :: string
  body :: string
  notificationId :: string
  appName :: "string option"
  mediaContent :: "string option"

text \<open>The detail of a \<^verbatim>\<open>show-focus-popup\<close> event: the same fields and \<^verbatim>\<open>mediaType\<close>.\<close>

record popup_detail = notification_data +
  mediaType :: "string option"

text \<open>The four \<^verbatim>\<open>useState\<close> cells.\<close>

record popup_state =
  isOpen :: bool
  notificationData :: "notification_data option"
  isImageLoaded :: bool
  lastShownAppId :: "string option"

text \<open>
  What the listeners of the effect have captured: the values of \<^verbatim>\<open>lastShownAppId\<close> and
  \<^verbatim>\<open>notificationData\<close> at the time the effect last ran.
\<close>

record closure =
  seenLastShownAppId :: "string option"
  seenNotificationData :: "notification_data option"

text \<open>The events the component dispatches on \<^verbatim>\<open>window\<close>.\<close>

datatype signal =
  FocusPopupDisplayed string nat
| NotificationDismissed string

text \<open>
  The component in its environment: the state cells, what the registered listeners have
  captured, the clock in milliseconds, the deadlines of the pending \<^verbatim>\<open>setTimeout\<close>
  callbacks in the order they were set, and the events dispatched so far.
\<close>

record world =
  popup :: popup_state
  listening :: closure
  clock :: nat
  timers :: "nat list"
  emitted :: "signal list"

definition initial_state :: popup_state where
  "initial_state =
     \<lparr>isOpen = False, notificationData = None, isImageLoaded = False, lastShownAppId = None\<rparr>"

text \<open>The effect runs: the listeners are registered anew and capture the state cells.\<close>

definition capture :: "popup_state \<Rightarrow> closure" where
  "capture s =
     \<lparr>seenLastShownAppId = lastShownAppId s, seenNotificationData = notificationData s\<rparr>"

definition rerender :: "world \<Rightarrow> world" where
  "rerender w = w\<lparr>listening := capture (popup w)\<rparr>"

text \<open>After mounting: the effect has run on the initial cells.\<close>

definition initial_world :: world where
  "initial_world =
     \<lparr>popup = initial_state, listening = capture initial_state, clock = 0, timers = [],
      emitted = []\<rparr>"

subsection \<open>Event handlers\<close>

text \<open>
  Line 42: \<^verbatim>\<open>currentAppId && currentAppId === lastShownAppId\<close>, where \<^verbatim>\<open>lastShownAppId\<close>
  is the value the listener has captured.
\<close>

definition isDuplicate :: "string option \<Rightarrow> string option \<Rightarrow> bool" where
  "isDuplicate currentAppId lastShown = (truthy currentAppId \<and> currentAppId = lastShown)"

text \<open>Lines 58 to 64: the record stored by \<^verbatim>\<open>setNotificationData\<close>.\<close>

definition storedData :: "string option \<Rightarrow> popup_detail \<Rightarrow> notification_data" where
  "storedData customImage d =
     \<lparr>title = title d, body = body d, notificationId = notificationId d,
      appName = appName d, mediaContent = js_or customImage (mediaContent d)\<rparr>"

definition handleShowFocusPopup :: "string option \<Rightarrow> popup_detail \<Rightarrow> world \<Rightarrow> world" where
  "handleShowFocusPopup customImage d w =
     (let currentAppId = appIdMatch (notificationId d);
          s = popup w
      in if isDuplicate currentAppId (seenLastShownAppId (listening w)) then w
         else
           w\<lparr>popup :=
               s\<lparr>lastShownAppId :=
                    (if truthy currentAppId then currentAppId else lastShownAppId s),
                 notificationData := Some (storedData customImage d),
                 isOpen := True,
                 isImageLoaded := False\<rparr>,
             timers := timers w @ [clock w + 8000],
             emitted := emitted w @ [FocusPopupDisplayed (notificationId d) (clock w)]\<rparr>)"

text \<open>
  The listener for \<^verbatim>\<open>notification-dismissed\<close>. The guard of line 90 reads the captured
  \<^verbatim>\<open>notificationData\<close>; the setters write the state cells.
\<close>

definition handleNotificationDismissed :: "string \<Rightarrow> world \<Rightarrow> world" where
  "handleNotificationDismissed detail w =
     (case seenNotificationData (listening w) of
        None \<Rightarrow> w
      | Some nd \<Rightarrow>
          if detail = notificationId nd
          then w\<lparr>popup := (popup w)\<lparr>isOpen := False, lastShownAppId := None\<rparr>\<rparr>
          else w)"

text \<open>
  The close icon and the Dismiss button. This handler is not created by the effect: every
  render creates it anew, together with the controls it is attached to, and it is run on
  the state cells. \<^verbatim>\<open>dispatchEvent\<close> is synchronous and the component listens to
  \<^verbatim>\<open>notification-dismissed\<close> itself, so its own listener runs on the event it dispatches.
\<close>

definition handleDismiss :: "world \<Rightarrow> world" where
  "handleDismiss w =
     (let s = (popup w)\<lparr>isOpen := False, lastShownAppId := None\<rparr>
      in case notificationData (popup w) of
           None \<Rightarrow> w\<lparr>popup := s\<rparr>
         | Some nd \<Rightarrow>
             handleNotificationDismissed (notificationId nd)
               (w\<lparr>popup := s,
                  emitted := emitted w @ [NotificationDismissed (notificationId nd)]\<rparr>))"

text \<open>\<^verbatim>\<open>handleImageLoad\<close> and \<^verbatim>\<open>handleImageError\<close> do the same.\<close>

definition handleImageLoad :: "popup_state \<Rightarrow> popup_state" where
  "handleImageLoad s = s\<lparr>isImageLoaded := True\<rparr>"

definition handleImageError :: "popup_state \<Rightarrow> popup_state" where
  "handleImageError s = s\<lparr>isImageLoaded := True\<rparr>"

text \<open>The callback of line 73, run when its timer fires.\<close>

definition autoDismiss :: "popup_state \<Rightarrow> popup_state" where
  "autoDismiss s = s\<lparr>isOpen := False\<rparr>"

text \<open>
  The oldest pending timer fires, once its deadline has been reached. No timer is ever
  cleared, so a timer leaves the list only by firing.
\<close>

definition timerFires :: "world \<Rightarrow> world option" where
  "timerFires w =
     (case timers w of
        [] \<Rightarrow> None
      | t # ts \<Rightarrow>
          if t \<le> clock w then Some (w\<lparr>popup := autoDismiss (popup w), timers := ts\<rparr>)
          else None)"

subsection \<open>Executions\<close>

datatype action =
  ShowFocusPopup popup_detail
| DismissedElsewhere string
| UserDismiss
| ImageLoad
| ImageError
| OpenChange bool
| TimerFires
| Wait nat
| Rerender

text \<open>
  One step under the value of \<^verbatim>\<open>customImage\<close> in effect. \<^verbatim>\<open>OpenChange\<close> is the
  dialog's \<^verbatim>\<open>onOpenChange={setIsOpen}\<close>; \<^verbatim>\<open>Rerender\<close> is React rendering the state
  cells and running the effect again. \<^const>\<open>None\<close>: the action is not enabled.
\<close>

fun step :: "string option \<Rightarrow> action \<Rightarrow> world \<Rightarrow> world option" where
  "step ci (ShowFocusPopup d) w = Some (handleShowFocusPopup ci d w)"
| "step ci (DismissedElsewhere i) w = Some (handleNotificationDismissed i w)"
| "step ci UserDismiss w = Some (handleDismiss w)"
| "step ci ImageLoad w = Some (w\<lparr>popup := handleImageLoad (popup w)\<rparr>)"
| "step ci ImageError w = Some (w\<lparr>popup := handleImageError (popup w)\<rparr>)"
| "step ci (OpenChange b) w = Some (w\<lparr>popup := (popup w)\<lparr>isOpen := b\<rparr>\<rparr>)"
| "step ci TimerFires w = timerFires w"
| "step ci (Wait n) w = Some (w\<lparr>clock := clock w + n\<rparr>)"
| "step ci Rerender w = Some (rerender w)"

fun run :: "(string option \<times> action) list \<Rightarrow> world \<Rightarrow> world option" where
  "run [] w = Some w"
| "run ((ci, a) # as) w =
     (case step ci a w of
        None \<Rightarrow> None
      | Some w' \<Rightarrow> run as w')"

subsection \<open>Rendering\<close>

definition systemMessage :: string where
  "systemMessage =
     ''You'' @ [CHR 0x27] @ ''re outside your focus zone. {app} is not in your whitelist.''"

text \<open>Line 141.\<close>

definition displayImage :: "string option \<Rightarrow> notification_data \<Rightarrow> string option" where
  "displayImage customImage nd = js_or customImage (mediaContent nd)"

text \<open>Line 147; \<^verbatim>\<open>appName || 'This app'\<close> is always a string.\<close>

definition bodyText :: "notification_data \<Rightarrow> string" where
  "bodyText nd = js_replace ''{app}'' (orElse (appName nd) ''This app'') (body nd)"

text \<open>Lines 150 and 151.\<close>

definition motivationalText :: "string option \<Rightarrow> string" where
  "motivationalText customText =
     (case customText of
        None \<Rightarrow> []
      | Some t \<Rightarrow>
          if t \<noteq> [] \<and> t \<noteq> systemMessage then trim (js_replace systemMessage [] t)
          else [])"

text \<open>Lines 198 to 204: the quote block is there when \<^verbatim>\<open>motivationalText\<close> is truthy.\<close>

definition quoteBlock :: "string option \<Rightarrow> string option" where
  "quoteBlock customText =
     (if motivationalText customText \<noteq> [] then Some (motivationalText customText)
      else None)"

text \<open>
  What the component returns: nothing without notification data, an empty
  \<^verbatim>\<open>AnimatePresence\<close> while \<^verbatim>\<open>isOpen\<close> is false, else the dialog with the image block (when
  \<^verbatim>\<open>displayImage\<close> is truthy), the title, the body and the quote block.
\<close>

record dialog =
  image :: "string option"
  heading :: string
  text_body :: string
  quote :: "string option"

datatype rendered =
  Nothing
| Hidden
| Dialog dialog

definition render :: "string option \<Rightarrow> string option \<Rightarrow> popup_state \<Rightarrow> rendered" where
  "render customImage customText s =
     (case notificationData s of
        None \<Rightarrow> Nothing
      | Some nd \<Rightarrow>
          if isOpen s then
            Dialog
              \<lparr>image =
                 (if truthy (displayImage customImage nd) then displayImage customImage nd
                  else None),
               heading = title nd,
               text_body = bodyText nd,
               quote = quoteBlock customText\<rparr>
          else Hidden)"

subsection \<open>The specification's wording\<close>

text \<open>
  A text with a substring removed: the first occurrence of \<open>pat\<close> is cut out, and a text
  without any occurrence is left as it is.
\<close>

fun spec_remove_substring :: "string \<Rightarrow> string \<Rightarrow> string" where
  "spec_remove_substring pat [] = []"
| "spec_remove_substring pat (c # cs) =
     (if prefix pat (c # cs) then drop (length pat) (c # cs)
      else c # spec_remove_substring pat cs)"

text \<open>
  A text with the first occurrence of a substring replaced by another text, taken
  literally.
\<close>

fun spec_substitute :: "string \<Rightarrow> string \<Rightarrow> string \<Rightarrow> string" where
  "spec_substitute pat new [] = []"
| "spec_substitute pat new (c # cs) =
     (if prefix pat (c # cs) then new @ drop (length pat) (c # cs)
      else c # spec_substitute pat new cs)"

text \<open>The application label of the body text: the application name, or a default.\<close>

fun spec_app_label :: "string option \<Rightarrow> string" where
  "spec_app_label None = ''This app''"
| "spec_app_label (Some a) = a"

subsection \<open>Reachability\<close>

text \<open>
  Before any notification is stored, no application identifier is remembered, neither in
  the state cells nor by the listeners.
\<close>

definition fresh :: "world \<Rightarrow> bool" where
  "fresh w =
     (notificationData (popup w) = None \<and> lastShownAppId (popup w) = None
      \<and> seenLastShownAppId (listening w) = None)"

subsection \<open>Scenarios\<close>

text \<open>The signal of the specification's scenario, and one for another application.\<close>

definition twitter_signal :: popup_detail where
  "twitter_signal =
     \<lparr>title = ''Blocked'', body = ''{app} is not allowed'',
      notificationId = ''focus-mode-twitter-1001'', appName = Some ''Twitter'',
      mediaContent = None, mediaType = None\<rparr>"

definition youtube_signal :: popup_detail where
  "youtube_signal =
     \<lparr>title = ''Blocked'', body = ''{app} is not allowed'',
      notificationId = ''focus-mode-youtube-1002'', appName = Some ''YouTube'',
      mediaContent = Some ''cat.png'', mediaType = Some ''image''\<rparr>"

text \<open>A signal whose identifier does not have the form of the pattern.\<close>

definition reminder_signal :: popup_detail where
  "reminder_signal =
     \<lparr>title = ''Reminder'', body = ''Back to work'',
      notificationId = ''reminder-42'', appName = None,
      mediaContent = Some ''bell.png'', mediaType = Some ''image''\<rparr>"

text \<open>Two signals whose identifiers match the pattern with an empty group.\<close>

definition unnamed_first :: popup_detail where
  "unnamed_first =
     \<lparr>title = ''First'', body = ''{app} is not allowed'',
      notificationId = ''focus-mode--1'', appName = None,
      mediaContent = None, mediaType = None\<rparr>"

definition unnamed_second :: popup_detail where
  "unnamed_second =
     \<lparr>title = ''Second'', body = ''{app} is not allowed'',
      notificationId = ''focus-mode--2'', appName = None,
      mediaContent = None, mediaType = None\<rparr>"

text \<open>
  The world 8000 ms after the first scenario's signal, which has been rendered, its timer
  having fired.
\<close>

definition timed_out_world :: world where
  "timed_out_world =
     \<lparr>popup =
        \<lparr>isOpen = False, notificationData = Some (storedData None twitter_signal),
         isImageLoaded = False, lastShownAppId = Some ''twitter''\<rparr>,
      listening =
        \<lparr>seenLastShownAppId = Some ''twitter'',
         seenNotificationData = Some (storedData None twitter_signal)\<rparr>,
      clock = 8000, timers = [],
      emitted = [FocusPopupDisplayed ''focus-mode-twitter-1001'' 0]\<rparr>"

text \<open>Notification data with an empty application name, and with a replacement pattern.\<close>

definition empty_name_data :: notification_data where
  "empty_name_data =
     \<lparr>title = ''Blocked'', body = ''{app} is not allowed'',
      notificationId = ''focus-mode-twitter-1001'', appName = Some [],
      mediaContent = None\<rparr>"

definition dollar_name_data :: notification_data where
  "dollar_name_data =
     \<lparr>title = ''Blocked'', body = ''{app} is not allowed'',
      notificationId = ''focus-mode-twitter-1001'', appName = Some ''$&'',
      mediaContent = None\<rparr>"

text \<open>A custom text: the system message followed by a quote.\<close>

definition quoted_text :: string where
  "quoted_text = systemMessage @ ''  Stay strong.  ''"

section \<open>Auxiliary facts\<close>

lemmas regex_defs = matchAt_def isDigit_def isLineTerminator_def

lemmas handler_defs = handleShowFocusPopup_def handleNotificationDismissed_def
  handleDismiss_def handleImageLoad_def handleImageError_def autoDismiss_def timerFires_def
  isDuplicate_def storedData_def rerender_def capture_def Let_def

lemmas scenario_defs = twitter_signal_def youtube_signal_def reminder_signal_def
  unnamed_first_def unnamed_second_def timed_out_world_def empty_name_data_def
  dollar_name_data_def initial_world_def initial_state_def

lemmas render_defs = render_def displayImage_def js_or_def bodyText_def js_replace_def
  quoteBlock_def motivationalText_def systemMessage_def quoted_text_def trim_def
  isWhiteSpace_def

subsection \<open>What the regular expression matches\<close>

lemma lazyGroup_sound:
  "lazyGroup acc s = Some g \<Longrightarrow>
   \<exists>x d rest. g = acc @ x \<and> s = x @ CHR ''-'' # d # rest \<and> isDigit d
     \<and> (\<forall>c\<in>set x. \<not> isLineTerminator c)"
proof (induction acc s rule: lazyGroup.induct)
  case (1 acc)
  then show ?case by simp
next
  case (2 acc c cs)
  show ?case
  proof (cases "dashDigits (c # cs)")
    case True
    then obtain d rest where "c # cs = CHR ''-'' # d # rest" "isDigit d"
      by (cases cs) auto
    moreover from True "2.prems" have "g = acc" by simp
    ultimately show ?thesis by (intro exI [of _ "[]"]) auto
  next
    case False
    with "2.prems" have nl: "\<not> isLineTerminator c" and r: "lazyGroup (acc @ [c]) cs = Some g"
      by (auto split: if_splits)
    from "2.IH" [OF False nl r] obtain x d rest where
      "g = (acc @ [c]) @ x" "cs = x @ CHR ''-'' # d # rest" "isDigit d"
      "\<forall>c\<in>set x. \<not> isLineTerminator c"
      by blast
    with nl show ?thesis by (intro exI [of _ "c # x"]) auto
  qed
qed

lemma lazyGroup_complete:
  "isDigit d \<Longrightarrow> \<forall>c\<in>set x. \<not> isLineTerminator c \<Longrightarrow>
   lazyGroup acc (x @ CHR ''-'' # d # rest) \<noteq> None"
  by (induction x arbitrary: acc) auto

lemma matchAt_sound:
  assumes "matchAt s = Some g"
  shows "\<exists>d rest. s = ''focus-mode-'' @ g @ CHR ''-'' # d # rest \<and> isDigit d
     \<and> (\<forall>c\<in>set g. \<not> isLineTerminator c)"
proof -
  from assms have p: "prefix ''focus-mode-'' s"
    and l: "lazyGroup [] (drop (length ''focus-mode-'') s) = Some g"
    by (auto simp: matchAt_def split: if_splits)
  from p obtain t where s: "s = ''focus-mode-'' @ t"
    by (auto simp: prefix_def)
  with l have "lazyGroup [] t = Some g" by simp
  from lazyGroup_sound [OF this] s show ?thesis by auto
qed

lemma matchAt_complete:
  assumes "isDigit d" and "\<forall>c\<in>set g. \<not> isLineTerminator c"
  shows "matchAt (''focus-mode-'' @ g @ CHR ''-'' # d # rest) \<noteq> None"
  using lazyGroup_complete [OF assms, of "[]" rest] by (simp add: matchAt_def)

text \<open>A match contains the literal prefix, the group, a dash and a digit.\<close>

lemma appIdMatch_sound:
  "appIdMatch s = Some g \<Longrightarrow>
   \<exists>pre d rest. s = pre @ ''focus-mode-'' @ g @ CHR ''-'' # d # rest \<and> isDigit d
     \<and> (\<forall>c\<in>set g. \<not> isLineTerminator c)"
proof (induction s)
  case Nil
  then show ?case by simp
next
  case (Cons c cs)
  show ?case
  proof (cases "matchAt (c # cs)")
    case None
    with Cons.prems have "appIdMatch cs = Some g" by simp
    from Cons.IH [OF this] obtain pre d rest where
      "cs = pre @ ''focus-mode-'' @ g @ CHR ''-'' # d # rest" "isDigit d"
      "\<forall>c\<in>set g. \<not> isLineTerminator c"
      by blast
    then show ?thesis by (intro exI [of _ "c # pre"]) auto
  next
    case (Some h)
    with Cons.prems have "h = g" by simp
    with Some matchAt_sound [of "c # cs" g] show ?thesis
      by (intro exI [of _ "[]"]) auto
  qed
qed

lemma appIdMatch_complete:
  assumes "isDigit d" and "\<forall>c\<in>set g. \<not> isLineTerminator c"
  shows "appIdMatch (pre @ ''focus-mode-'' @ g @ CHR ''-'' # d # rest) \<noteq> None"
proof (induction pre)
  case Nil
  from matchAt_complete [OF assms, of rest] show ?case
    by (auto split: option.splits)
next
  case (Cons c pre)
  then show ?case by (auto split: option.splits)
qed

text \<open>There is no match exactly when the text has no part of that form.\<close>

lemma appIdMatch_None_iff:
  "appIdMatch s = None \<longleftrightarrow>
   \<not> (\<exists>pre g d rest. s = pre @ ''focus-mode-'' @ g @ CHR ''-'' # d # rest \<and> isDigit d
       \<and> (\<forall>c\<in>set g. \<not> isLineTerminator c))"
proof
  assume "appIdMatch s = None"
  then show "\<not> (\<exists>pre g d rest. s = pre @ ''focus-mode-'' @ g @ CHR ''-'' # d # rest
      \<and> isDigit d \<and> (\<forall>c\<in>set g. \<not> isLineTerminator c))"
    using appIdMatch_complete by blast
next
  assume n: "\<not> (\<exists>pre g d rest. s = pre @ ''focus-mode-'' @ g @ CHR ''-'' # d # rest
      \<and> isDigit d \<and> (\<forall>c\<in>set g. \<not> isLineTerminator c))"
  show "appIdMatch s = None"
  proof (cases "appIdMatch s")
    case None
    then show ?thesis .
  next
    case (Some g)
    from appIdMatch_sound [OF this] n show ?thesis by blast
  qed
qed

subsection \<open>Replacement\<close>

lemma getSubstitution_plain:
  "CHR ''$'' \<notin> set r \<Longrightarrow> getSubstitution m p q r = r"
  by (induction m p q r rule: getSubstitution.induct) auto

lemma splitFirst_substitute:
  "pat \<noteq> [] \<Longrightarrow>
   (case splitFirst pat s of None \<Rightarrow> s | Some (pre, post) \<Rightarrow> pre @ r @ post) =
     spec_substitute pat r s"
  by (induction s) (auto split: option.splits)

lemma splitFirst_remove:
  "(case splitFirst pat s of None \<Rightarrow> s | Some (pre, post) \<Rightarrow> pre @ post) =
     spec_remove_substring pat s"
  by (induction s) (auto split: option.splits)

lemma js_replace_plain:
  assumes "CHR ''$'' \<notin> set r" and "pat \<noteq> []"
  shows "js_replace pat r s = spec_substitute pat r s"
proof -
  have "js_replace pat r s =
      (case splitFirst pat s of None \<Rightarrow> s | Some (pre, post) \<Rightarrow> pre @ r @ post)"
    using assms(1) by (simp add: js_replace_def getSubstitution_plain split: option.splits)
  then show ?thesis using assms(2) by (simp add: splitFirst_substitute)
qed

lemma js_replace_empty: "js_replace pat [] s = spec_remove_substring pat s"
proof -
  have "js_replace pat [] s =
      (case splitFirst pat s of None \<Rightarrow> s | Some (pre, post) \<Rightarrow> pre @ post)"
    by (simp add: js_replace_def split: option.splits)
  then show ?thesis by (simp add: splitFirst_remove)
qed

lemma remove_whole: "pat \<noteq> [] \<Longrightarrow> spec_remove_substring pat pat = []"
  by (cases pat) auto

lemma trim_Nil: "trim [] = []"
  by (simp add: trim_def)

lemma systemMessage_nonempty: "systemMessage \<noteq> []"
  by (simp add: systemMessage_def)

lemma motivationalText_spec:
  "motivationalText ct =
     (case ct of None \<Rightarrow> [] | Some t \<Rightarrow> trim (spec_remove_substring systemMessage t))"
  by (auto simp: motivationalText_def js_replace_empty remove_whole trim_Nil
      systemMessage_nonempty split: option.splits)

subsection \<open>Executions\<close>

lemma fire_due_timers:
  assumes "timers w = ts @ rest" and "\<forall>t\<in>set ts. t \<le> clock w"
  shows "run (replicate (length ts) (ci, TimerFires)) w =
     Some (w\<lparr>popup := (if ts = [] then popup w else autoDismiss (popup w)), timers := rest\<rparr>)"
  using assms
proof (induction ts arbitrary: w)
  case Nil
  then show ?case by simp
next
  case (Cons t ts)
  let ?v = "w\<lparr>popup := autoDismiss (popup w), timers := ts @ rest\<rparr>"
  have s: "timerFires w = Some ?v"
    using Cons.prems by (simp add: timerFires_def)
  have "run (replicate (length ts) (ci, TimerFires)) ?v =
     Some (?v\<lparr>popup := (if ts = [] then popup ?v else autoDismiss (popup ?v)), timers := rest\<rparr>)"
    using Cons.prems by (intro Cons.IH) simp_all
  then show ?case using s by (simp add: autoDismiss_def)
qed

lemma step_keeps_data:
  assumes "step ci a w = Some w'" and "notificationData (popup w) \<noteq> None"
  shows "notificationData (popup w') \<noteq> None"
  using assms
  by (cases a) (auto simp: handler_defs split: if_splits option.splits list.splits)

lemma run_keeps_data:
  assumes "run as w = Some w'" and "notificationData (popup w) \<noteq> None"
  shows "notificationData (popup w') \<noteq> None"
  using assms
proof (induction as arbitrary: w)
  case Nil
  then show ?case by simp
next
  case (Cons x as)
  obtain ci a where x: "x = (ci, a)" by (cases x)
  from Cons.prems(1) x obtain v where v: "step ci a w = Some v" and r: "run as v = Some w'"
    by (auto split: option.splits)
  from step_keeps_data [OF v Cons.prems(2)] have "notificationData (popup v) \<noteq> None" .
  with Cons.IH r show ?case by blast
qed

lemma step_fresh:
  assumes "step ci a w = Some w'" and "fresh w"
  shows "(\<exists>d. a = ShowFocusPopup d) \<and> notificationData (popup w') \<noteq> None
       \<or> (\<forall>d. a \<noteq> ShowFocusPopup d) \<and> fresh w'"
  using assms
  by (cases a) (auto simp: fresh_def handler_defs split: if_splits option.splits list.splits)

lemma run_fresh:
  assumes "run as w = Some w'" and "fresh w" and "notificationData (popup w') = None"
  shows "\<forall>x\<in>set as. \<forall>d. snd x \<noteq> ShowFocusPopup d"
  using assms
proof (induction as arbitrary: w)
  case Nil
  then show ?case by simp
next
  case (Cons x as)
  obtain ci a where x: "x = (ci, a)" by (cases x)
  from Cons.prems(1) x obtain v where v: "step ci a w = Some v" and r: "run as v = Some w'"
    by (auto split: option.splits)
  from step_fresh [OF v Cons.prems(2)] show ?case
  proof
    assume "(\<exists>d. a = ShowFocusPopup d) \<and> notificationData (popup v) \<noteq> None"
    then have "notificationData (popup w') \<noteq> None"
      using run_keeps_data [OF r] by blast
    with Cons.prems(3) show ?thesis by simp
  next
    assume f: "(\<forall>d. a \<noteq> ShowFocusPopup d) \<and> fresh v"
    with Cons.IH [OF r _ Cons.prems(3)] x show ?thesis by simp
  qed
qed

text \<open>In every reachable world, each pending timer is due within 8000 ms.\<close>

lemma step_timers_bounded:
  assumes "step ci a w = Some w'" and "\<forall>t\<in>set (timers w). t \<le> clock w + 8000"
  shows "\<forall>t\<in>set (timers w'). t \<le> clock w' + 8000"
  using assms
  by (cases a)
    (fastforce simp: handler_defs split: if_splits option.splits list.splits)+

lemma run_timers_bounded:
  assumes "run as w = Some w'" and "\<forall>t\<in>set (timers w). t \<le> clock w + 8000"
  shows "\<forall>t\<in>set (timers w'). t \<le> clock w' + 8000"
  using assms
proof (induction as arbitrary: w)
  case Nil
  then show ?case by simp
next
  case (Cons x as)
  obtain ci a where x: "x = (ci, a)" by (cases x)
  from Cons.prems(1) x obtain v where v: "step ci a w = Some v" and r: "run as v = Some w'"
    by (auto split: option.splits)
  from step_timers_bounded [OF v Cons.prems(2)] Cons.IH [OF r] show ?case by blast
qed

lemma reachable_timers_bounded:
  "run as initial_world = Some w \<Longrightarrow> \<forall>t\<in>set (timers w). t \<le> clock w + 8000"
  using run_timers_bounded [of as initial_world w] by (simp add: initial_world_def)

subsection \<open>Listeners between two renders\<close>

text \<open>
  Two signals for the same application handled before the component is rendered again:
  the listener still reads the old \<^verbatim>\<open>lastShownAppId\<close>, and both are shown.
\<close>

lemma unrendered_signals_both_shown:
  "emitted (handleShowFocusPopup None twitter_signal
       (handleShowFocusPopup None twitter_signal initial_world)) =
     [FocusPopupDisplayed ''focus-mode-twitter-1001'' 0,
      FocusPopupDisplayed ''focus-mode-twitter-1001'' 0]
   \<and> timers (handleShowFocusPopup None twitter_signal
       (handleShowFocusPopup None twitter_signal initial_world)) = [8000, 8000]"
  by (simp add: scenario_defs regex_defs handler_defs)

text \<open>
  A signal and the matching \<^verbatim>\<open>notification-dismissed\<close> handled before the component is
  rendered again: the listener still reads the old \<^verbatim>\<open>notificationData\<close>, and the popup
  stays open.
\<close>

lemma unrendered_dismissal_ignored:
  "handleNotificationDismissed ''focus-mode-twitter-1001''
       (handleShowFocusPopup None twitter_signal initial_world) =
     handleShowFocusPopup None twitter_signal initial_world
   \<and> isOpen (popup (handleShowFocusPopup None twitter_signal initial_world))"
  by (simp add: scenario_defs regex_defs handler_defs)

lemma render_Nothing_iff: "render ci ct s = Nothing \<longleftrightarrow> notificationData s = None"
  by (simp add: render_def split: option.splits)

section \<open>The claims\<close>

subsection \<open>C1: duplicate suppression\<close>

text \<open>
  C1 as stated, for every capture group \<open>X\<close>, fails when the group is empty: an empty
  \<^verbatim>\<open>currentAppId\<close> is falsy, so the guard of line 42 lets the signal through. From the
  initial world, two consecutive signals whose identifiers both match with the empty
  group, the component being rendered between them: the second one changes the state
  cells and dispatches a second \<^verbatim>\<open>focus-popup-displayed\<close>.
\<close>

theorem empty_app_id_counterexample:
  "appIdMatch (notificationId unnamed_first) = Some []
   \<and> appIdMatch (notificationId unnamed_second) = Some []
   \<and> popup (handleShowFocusPopup None unnamed_second
         (rerender (handleShowFocusPopup None unnamed_first initial_world))) \<noteq>
       popup (handleShowFocusPopup None unnamed_first initial_world)
   \<and> emitted (handleShowFocusPopup None unnamed_second
         (rerender (handleShowFocusPopup None unnamed_first initial_world))) =
       emitted (handleShowFocusPopup None unnamed_first initial_world) @
         [FocusPopupDisplayed ''focus-mode--2'' 0]"
  by (simp add: scenario_defs regex_defs handler_defs)

text \<open>
  C1, amended: when the notification identifier matches the pattern with a non-empty
  capture group \<open>X\<close>, handling the signal in a state whose \<^verbatim>\<open>lastShownAppId\<close> is \<open>X\<close>,
  the component having been rendered since that value was set (the listener has captured
  it), changes nothing: the four state cells, the pending timers and the dispatched
  events are the same, so no \<^verbatim>\<open>focus-popup-displayed\<close> is emitted. And of two consecutive
  signals matching with the same non-empty \<open>X\<close>, the component being rendered before each
  of them, the second leaves the world as it was after the first.
\<close>

theorem duplicate_suppressed:
  assumes "appIdMatch (notificationId d1) = Some X"
    and "appIdMatch (notificationId d2) = Some X"
    and "X \<noteq> []"
  shows "(lastShownAppId (popup w) = Some X
          \<and> seenLastShownAppId (listening w) = lastShownAppId (popup w) \<longrightarrow>
            handleShowFocusPopup ci d2 w = w)
       \<and> handleShowFocusPopup ci' d2 (rerender (handleShowFocusPopup ci d1 (rerender w))) =
           rerender (handleShowFocusPopup ci d1 (rerender w))"
proof -
  have dup: "handleShowFocusPopup c d2 v = v"
    if "seenLastShownAppId (listening v) = Some X" for c v
    using that assms(2,3) by (simp add: handleShowFocusPopup_def isDuplicate_def)
  have "lastShownAppId (popup (handleShowFocusPopup ci d1 (rerender w))) = Some X"
    using assms(1,3)
    by (simp add: handleShowFocusPopup_def isDuplicate_def rerender_def capture_def Let_def)
  then have "seenLastShownAppId
      (listening (rerender (handleShowFocusPopup ci d1 (rerender w)))) = Some X"
    by (simp add: rerender_def capture_def)
  with dup show ?thesis by simp
qed

theorem duplicate_suppressed_witness:
  "appIdMatch (notificationId twitter_signal) = Some ''twitter''
   \<and> ''twitter'' \<noteq> []
   \<and> lastShownAppId
       (popup (rerender (handleShowFocusPopup None twitter_signal initial_world))) =
       Some ''twitter''
   \<and> seenLastShownAppId
       (listening (rerender (handleShowFocusPopup None twitter_signal initial_world))) =
       Some ''twitter''
   \<and> handleShowFocusPopup (Some ''custom.png'') twitter_signal
       (rerender (handleShowFocusPopup None twitter_signal initial_world)) =
     rerender (handleShowFocusPopup None twitter_signal initial_world)
   \<and> handleShowFocusPopup None twitter_signal
       (rerender (handleShowFocusPopup None twitter_signal (rerender initial_world))) =
     rerender (handleShowFocusPopup None twitter_signal (rerender initial_world))"
proof -
  have m: "appIdMatch (notificationId twitter_signal) = Some ''twitter''"
    by (simp add: scenario_defs regex_defs)
  have ne: "''twitter'' \<noteq> []"
    by simp
  have l: "lastShownAppId
      (popup (rerender (handleShowFocusPopup None twitter_signal initial_world))) =
      Some ''twitter''"
    "seenLastShownAppId
      (listening (rerender (handleShowFocusPopup None twitter_signal initial_world))) =
      Some ''twitter''"
    by (simp_all add: handler_defs scenario_defs regex_defs)
  show ?thesis
    using duplicate_suppressed [OF m m ne,
        where w = "rerender (handleShowFocusPopup None twitter_signal initial_world)"
          and ci = "Some ''custom.png''"]
      duplicate_suppressed [OF m m ne,
        where w = initial_world and ci = None and ci' = None]
      m l
    by simp
qed

subsection \<open>C2: a notification dismissed elsewhere\<close>

text \<open>
  C2 as stated fails when the popup has been closed by its timer: no popup is showing
  (\<^verbatim>\<open>isOpen\<close> is false), yet the notification data is still there, rendered and captured
  by the listener, the guard of line 90 holds, and a \<^verbatim>\<open>notification-dismissed\<close> signal
  with the stored identifier clears \<^verbatim>\<open>lastShownAppId\<close>.
\<close>

theorem dismissed_after_timeout_counterexample:
  "run [(None, ShowFocusPopup twitter_signal), (None, Rerender), (None, Wait 8000),
        (None, TimerFires), (None, Rerender)]
      initial_world = Some timed_out_world
   \<and> isOpen (popup timed_out_world) = False
   \<and> lastShownAppId (popup timed_out_world) = Some ''twitter''
   \<and> popup (handleNotificationDismissed ''focus-mode-twitter-1001'' timed_out_world) \<noteq>
       popup timed_out_world
   \<and> lastShownAppId
       (popup (handleNotificationDismissed ''focus-mode-twitter-1001'' timed_out_world)) =
       None"
  by (simp add: scenario_defs regex_defs handler_defs)

text \<open>
  C2, amended: on a \<^verbatim>\<open>notification-dismissed\<close> signal carrying \<open>i\<close>, the component having
  been rendered since the notification data last changed (the listener has captured the
  stored data), the handler sets \<^verbatim>\<open>isOpen\<close> to false and clears \<^verbatim>\<open>lastShownAppId\<close> if and
  only if notification data is stored (whether or not the popup is still open) and its
  \<^verbatim>\<open>notificationId\<close> is \<open>i\<close>; otherwise it changes no state. The notification data,
  \<^verbatim>\<open>isImageLoaded\<close>, the pending timers and the dispatched events are never changed.
\<close>

theorem dismissed_elsewhere:
  assumes "seenNotificationData (listening w) = notificationData (popup w)"
  shows "handleNotificationDismissed i w =
     (if map_option notificationId (notificationData (popup w)) = Some i
      then w\<lparr>popup := (popup w)\<lparr>isOpen := False, lastShownAppId := None\<rparr>\<rparr>
      else w)"
  using assms by (auto simp: handleNotificationDismissed_def split: option.splits)

theorem dismissed_elsewhere_witness:
  "seenNotificationData
       (listening (rerender (handleShowFocusPopup None twitter_signal initial_world))) =
     notificationData (popup (rerender (handleShowFocusPopup None twitter_signal initial_world)))
   \<and> popup (handleNotificationDismissed ''focus-mode-twitter-1001''
       (rerender (handleShowFocusPopup None twitter_signal initial_world))) =
     \<lparr>isOpen = False, notificationData = Some (storedData None twitter_signal),
      isImageLoaded = False, lastShownAppId = None\<rparr>
   \<and> handleNotificationDismissed ''focus-mode-youtube-1002''
       (rerender (handleShowFocusPopup None twitter_signal initial_world)) =
     rerender (handleShowFocusPopup None twitter_signal initial_world)"
proof -
  have h: "seenNotificationData
       (listening (rerender (handleShowFocusPopup None twitter_signal initial_world))) =
     notificationData (popup (rerender (handleShowFocusPopup None twitter_signal initial_world)))"
    by (simp add: rerender_def capture_def)
  have e: "popup (rerender (handleShowFocusPopup None twitter_signal initial_world)) =
     \<lparr>isOpen = True, notificationData = Some (storedData None twitter_signal),
      isImageLoaded = False, lastShownAppId = Some ''twitter''\<rparr>"
    "notificationId (storedData None twitter_signal) = ''focus-mode-twitter-1001''"
    by (simp_all add: scenario_defs regex_defs handler_defs)
  show ?thesis
    using dismissed_elsewhere [OF h, of "''focus-mode-twitter-1001''"]
      dismissed_elsewhere [OF h, of "''focus-mode-youtube-1002''"] h e
    by simp
qed

subsection \<open>C3: the timer of a superseded popup\<close>

text \<open>
  C3: let a first signal be shown, and a second signal be shown \<open>n\<close> ms later, with
  \<open>n < 8000\<close>, the component being rendered before each of them. The timer of the first
  signal is still pending after the second (nothing cancels it), and there is an
  execution, the clock at 8000 ms after the first signal, in which the timers fire up to
  and including the first signal's: then \<^verbatim>\<open>isOpen\<close> is false while the notification data
  is the second signal's, whose own timer is still pending. The timers pending beforehand
  are those earlier signals can have left: none is due later than 8000 ms from now, as in
  every reachable world.
\<close>

theorem stale_timer_closes_newer_popup:
  assumes first: "\<not> isDuplicate (appIdMatch (notificationId d1)) (lastShownAppId (popup w))"
    and second: "\<not> isDuplicate (appIdMatch (notificationId d2))
        (lastShownAppId (popup (handleShowFocusPopup ci d1 (rerender w))))"
    and early: "n < 8000"
    and older: "\<forall>t\<in>set (timers w). t \<le> clock w + 8000"
  shows "\<exists>w2 w3.
      run [(ci, Rerender), (ci, ShowFocusPopup d1), (ci, Rerender), (ci, Wait n),
           (ci', ShowFocusPopup d2)] w = Some w2
    \<and> isOpen (popup w2)
    \<and> notificationData (popup w2) = Some (storedData ci' d2)
    \<and> timers w2 = timers w @ [clock w + 8000, clock w + n + 8000]
    \<and> run ((ci', Wait (8000 - n)) # replicate (Suc (length (timers w))) (ci', TimerFires)) w2
        = Some w3
    \<and> \<not> isOpen (popup w3)
    \<and> notificationData (popup w3) = Some (storedData ci' d2)
    \<and> timers w3 = [clock w + n + 8000]
    \<and> clock w3 = clock w + 8000"
proof -
  let ?w1 = "handleShowFocusPopup ci d1 (rerender w)"
  let ?w1' = "(rerender ?w1)\<lparr>clock := clock (rerender ?w1) + n\<rparr>"
  let ?w2 = "handleShowFocusPopup ci' d2 ?w1'"
  let ?w2' = "?w2\<lparr>clock := clock ?w2 + (8000 - n)\<rparr>"
  let ?ts = "timers w @ [clock w + 8000]"
  have first': "\<not> isDuplicate (appIdMatch (notificationId d1))
      (seenLastShownAppId (listening (rerender w)))"
    using first by (simp add: rerender_def capture_def)
  have second': "\<not> isDuplicate (appIdMatch (notificationId d2))
      (seenLastShownAppId (listening ?w1'))"
    using second by (simp add: rerender_def capture_def)
  have t1: "timers ?w1 = timers w @ [clock w + 8000]" and c1: "clock ?w1 = clock w"
    using first' by (simp_all add: handleShowFocusPopup_def Let_def rerender_def)
  have t1': "timers ?w1' = timers w @ [clock w + 8000]" and c1': "clock ?w1' = clock w + n"
    using t1 c1 by (simp_all add: rerender_def)
  have nd2: "notificationData (popup ?w2) = Some (storedData ci' d2)"
    and o2: "isOpen (popup ?w2)"
    and t2: "timers ?w2 = ?ts @ [clock w + n + 8000]"
    and c2: "clock ?w2 = clock w + n"
    using second' t1' c1' by (simp_all add: handleShowFocusPopup_def Let_def)
  have r2: "run [(ci, Rerender), (ci, ShowFocusPopup d1), (ci, Rerender), (ci, Wait n),
      (ci', ShowFocusPopup d2)] w = Some ?w2"
    by simp
  have c2': "clock ?w2' = clock w + 8000"
    using c2 early by simp
  have due: "\<forall>t\<in>set ?ts. t \<le> clock ?w2'"
    using older c2' by auto
  have "timers ?w2' = ?ts @ [clock w + n + 8000]"
    using t2 by simp
  from fire_due_timers [OF this due, of ci']
  have r3: "run (replicate (Suc (length (timers w))) (ci', TimerFires)) ?w2' =
      Some (?w2'\<lparr>popup := autoDismiss (popup ?w2'), timers := [clock w + n + 8000]\<rparr>)"
    by simp
  let ?w3 = "?w2'\<lparr>popup := autoDismiss (popup ?w2'), timers := [clock w + n + 8000]\<rparr>"
  have r3': "run ((ci', Wait (8000 - n)) # replicate (Suc (length (timers w))) (ci', TimerFires)) ?w2
      = Some ?w3"
    using r3 by simp
  have "\<not> isOpen (popup ?w3)" "notificationData (popup ?w3) = Some (storedData ci' d2)"
    "timers ?w3 = [clock w + n + 8000]" "clock ?w3 = clock w + 8000"
    using nd2 c2' by (simp_all add: autoDismiss_def)
  with r2 r3' o2 nd2 t2 show ?thesis
    by (intro exI [of _ ?w2] exI [of _ ?w3]) simp
qed

theorem stale_timer_closes_newer_popup_witness:
  "\<not> isDuplicate (appIdMatch (notificationId twitter_signal))
       (lastShownAppId (popup initial_world))
   \<and> \<not> isDuplicate (appIdMatch (notificationId youtube_signal))
       (lastShownAppId
         (popup (handleShowFocusPopup None twitter_signal (rerender initial_world))))
   \<and> (3000::nat) < 8000
   \<and> timers initial_world = []
   \<and> (\<exists>w2 w3.
        run [(None, Rerender), (None, ShowFocusPopup twitter_signal), (None, Rerender),
             (None, Wait 3000), (None, ShowFocusPopup youtube_signal)] initial_world = Some w2
      \<and> isOpen (popup w2)
      \<and> notificationData (popup w2) = Some (storedData None youtube_signal)
      \<and> timers w2 = [8000, 11000]
      \<and> run [(None, Wait 5000), (None, TimerFires)] w2 = Some w3
      \<and> \<not> isOpen (popup w3)
      \<and> notificationData (popup w3) = Some (storedData None youtube_signal)
      \<and> timers w3 = [11000]
      \<and> clock w3 = 8000)"
proof -
  have h1: "\<not> isDuplicate (appIdMatch (notificationId twitter_signal))
      (lastShownAppId (popup initial_world))"
    by (simp add: scenario_defs regex_defs handler_defs)
  have h2: "\<not> isDuplicate (appIdMatch (notificationId youtube_signal))
      (lastShownAppId
        (popup (handleShowFocusPopup None twitter_signal (rerender initial_world))))"
    by (simp add: scenario_defs regex_defs handler_defs)
  have h3: "(3000::nat) < 8000"
    by simp
  have h4: "\<forall>t\<in>set (timers initial_world). t \<le> clock initial_world + 8000"
    by (simp add: initial_world_def)
  have e: "timers initial_world = []" "clock initial_world = 0"
    by (simp_all add: initial_world_def)
  show ?thesis
    using stale_timer_closes_newer_popup [OF h1 h2 h3 h4, of None] h1 h2
    by (simp add: e)
qed

subsection \<open>C4: the custom image takes priority\<close>

text \<open>
  C4 as stated, for every signal, fails for a signal that is suppressed as a duplicate:
  the handler returns at line 44 and stores nothing. After a first signal without an
  image has been shown and rendered, a second signal for the same application arrives
  under the context value \<^verbatim>\<open>custom.png\<close>: the world is unchanged, and the stored image
  source is still absent.
\<close>

theorem suppressed_signal_counterexample:
  "handleShowFocusPopup (Some ''custom.png'') twitter_signal
       (rerender (handleShowFocusPopup None twitter_signal initial_world)) =
     rerender (handleShowFocusPopup None twitter_signal initial_world)
   \<and> truthy (Some ''custom.png'')
   \<and> map_option mediaContent
       (notificationData (popup (handleShowFocusPopup (Some ''custom.png'') twitter_signal
         (rerender (handleShowFocusPopup None twitter_signal initial_world))))) = Some None"
  by (simp add: scenario_defs regex_defs handler_defs js_or_def)

text \<open>
  C4, amended: for every signal that is not suppressed as a duplicate, handled under a
  context value \<^verbatim>\<open>customImage\<close>, the image source stored in
  \<^verbatim>\<open>notificationData.mediaContent\<close> and the image source computed at render time are both
  \<^verbatim>\<open>customImage\<close> when that is present and non-empty, whatever the signal carries, and
  both are the signal's \<^verbatim>\<open>mediaContent\<close> (possibly absent) otherwise. At render time under
  any later context value, that value wins when present and non-empty, and the stored
  source is used otherwise.
\<close>

theorem custom_image_wins:
  assumes "\<not> isDuplicate (appIdMatch (notificationId d)) (seenLastShownAppId (listening w))"
  shows "\<exists>nd. notificationData (popup (handleShowFocusPopup ci d w)) = Some nd
       \<and> mediaContent nd = (if truthy ci then ci else mediaContent d)
       \<and> displayImage ci nd = (if truthy ci then ci else mediaContent d)
       \<and> displayImage ci' nd = (if truthy ci' then ci' else mediaContent nd)"
  using assms
  by (simp add: handleShowFocusPopup_def storedData_def displayImage_def js_or_def Let_def)

theorem custom_image_wins_witness:
  "\<not> isDuplicate (appIdMatch (notificationId youtube_signal))
       (seenLastShownAppId (listening initial_world))
   \<and> (\<exists>nd. notificationData
          (popup (handleShowFocusPopup (Some ''custom.png'') youtube_signal initial_world)) =
            Some nd
        \<and> mediaContent youtube_signal = Some ''cat.png''
        \<and> mediaContent nd = Some ''custom.png''
        \<and> displayImage (Some ''custom.png'') nd = Some ''custom.png''
        \<and> displayImage None nd = Some ''custom.png'')"
proof -
  have h: "\<not> isDuplicate (appIdMatch (notificationId youtube_signal))
      (seenLastShownAppId (listening initial_world))"
    by (simp add: scenario_defs regex_defs handler_defs)
  have m: "mediaContent youtube_signal = Some ''cat.png''"
    by (simp add: youtube_signal_def)
  show ?thesis
    using custom_image_wins [OF h, of "Some ''custom.png''" None] h m
    by auto
qed

subsection \<open>C5: the motivational quote\<close>

text \<open>
  C5: whenever the dialog is rendered, it contains the quote block if and only if
  \<^verbatim>\<open>customText\<close> is present and the text obtained from it by removing the system message
  (its first occurrence, if there is one) and trimming the surrounding white space is not
  empty; the quote is then that text.
\<close>

theorem quote_block_shown:
  assumes "render ci ct s = Dialog dlg"
  shows "quote dlg =
     (case ct of
        None \<Rightarrow> None
      | Some t \<Rightarrow>
          if trim (spec_remove_substring systemMessage t) = [] then None
          else Some (trim (spec_remove_substring systemMessage t)))"
proof -
  have "quote dlg = quoteBlock ct"
    using assms by (auto simp: render_def split: option.splits if_splits)
  then show ?thesis
    by (simp add: quoteBlock_def motivationalText_spec split: option.splits)
qed

theorem quote_block_shown_witness:
  "render None (Some quoted_text)
       (popup (handleShowFocusPopup None twitter_signal initial_world)) =
     Dialog \<lparr>image = None, heading = ''Blocked'', text_body = ''Twitter is not allowed'',
       quote = Some ''Stay strong.''\<rparr>
   \<and> trim (spec_remove_substring systemMessage quoted_text) = ''Stay strong.''"
proof -
  have r: "render None (Some quoted_text)
       (popup (handleShowFocusPopup None twitter_signal initial_world)) =
     Dialog \<lparr>image = None, heading = ''Blocked'', text_body = ''Twitter is not allowed'',
       quote = Some ''Stay strong.''\<rparr>"
    by (simp add: scenario_defs regex_defs handler_defs render_defs)
  show ?thesis
    using quote_block_shown [OF r] r by (simp split: if_splits)
qed

subsection \<open>C6: the user dismisses the popup\<close>



subsection \<open>C7: the timer only closes\<close>

text \<open>
  C7: in every state, when the auto-dismiss timer fires, \<^verbatim>\<open>isOpen\<close> becomes false and
  nothing else changes: the notification data, \<^verbatim>\<open>lastShownAppId\<close> and \<^verbatim>\<open>isImageLoaded\<close>
  are as before, and no event (neither \<^verbatim>\<open>notification-dismissed\<close> nor
  \<^verbatim>\<open>focus-popup-displayed\<close>) is dispatched.
\<close>

theorem auto_dismiss_only_closes:
  assumes "timerFires w = Some w'"
  shows "isOpen (popup w') = False
       \<and> notificationData (popup w') = notificationData (popup w)
       \<and> lastShownAppId (popup w') = lastShownAppId (popup w)
       \<and> isImageLoaded (popup w') = isImageLoaded (popup w)
       \<and> emitted w' = emitted w
       \<and> clock w' = clock w"
  using assms by (auto simp: timerFires_def autoDismiss_def split: list.splits if_splits)

theorem auto_dismiss_only_closes_witness:
  "timerFires
       ((rerender (handleShowFocusPopup None twitter_signal initial_world))\<lparr>clock := 8000\<rparr>) =
     Some timed_out_world
   \<and> isOpen (popup (handleShowFocusPopup None twitter_signal initial_world))
   \<and> isOpen (popup timed_out_world) = False
   \<and> notificationData (popup timed_out_world) = Some (storedData None twitter_signal)
   \<and> lastShownAppId (popup timed_out_world) = Some ''twitter''
   \<and> emitted timed_out_world = [FocusPopupDisplayed ''focus-mode-twitter-1001'' 0]"
proof -
  have h: "timerFires
       ((rerender (handleShowFocusPopup None twitter_signal initial_world))\<lparr>clock := 8000\<rparr>) =
      Some timed_out_world"
    by (simp add: scenario_defs regex_defs handler_defs)
  have e: "isOpen (popup (handleShowFocusPopup None twitter_signal initial_world))"
    "notificationData (popup (handleShowFocusPopup None twitter_signal initial_world)) =
      Some (storedData None twitter_signal)"
    "lastShownAppId (popup (handleShowFocusPopup None twitter_signal initial_world)) =
      Some ''twitter''"
    "emitted (handleShowFocusPopup None twitter_signal initial_world) =
      [FocusPopupDisplayed ''focus-mode-twitter-1001'' 0]"
    by (simp_all add: scenario_defs regex_defs handler_defs)
  show ?thesis
    using auto_dismiss_only_closes [OF h] h e by (simp add: rerender_def)
qed

subsection \<open>C8: identifiers that do not match the pattern\<close>

text \<open>
  C8: when the \<^verbatim>\<open>notificationId\<close> of a signal does not match the pattern, the popup is
  shown in every state: \<^verbatim>\<open>isOpen\<close> becomes true, the notification data is set from the
  signal (title, body, identifier and application name are the signal's, the image
  source as in C4), one \<^verbatim>\<open>focus-popup-displayed\<close> with the signal's identifier is
  dispatched, and \<^verbatim>\<open>lastShownAppId\<close> is left as it was.
\<close>

theorem unmatched_id_always_shown:
  assumes "appIdMatch (notificationId d) = None"
  shows "isOpen (popup (handleShowFocusPopup ci d w))
       \<and> notificationData (popup (handleShowFocusPopup ci d w)) = Some (storedData ci d)
       \<and> title (storedData ci d) = title d
       \<and> body (storedData ci d) = body d
       \<and> notificationId (storedData ci d) = notificationId d
       \<and> appName (storedData ci d) = appName d
       \<and> mediaContent (storedData ci d) = js_or ci (mediaContent d)
       \<and> emitted (handleShowFocusPopup ci d w) =
           emitted w @ [FocusPopupDisplayed (notificationId d) (clock w)]
       \<and> lastShownAppId (popup (handleShowFocusPopup ci d w)) = lastShownAppId (popup w)"
  using assms by (simp add: handleShowFocusPopup_def isDuplicate_def storedData_def Let_def)

theorem unmatched_id_always_shown_witness:
  "appIdMatch (notificationId reminder_signal) = None
   \<and> isOpen (popup (handleShowFocusPopup None reminder_signal timed_out_world))
   \<and> notificationData (popup (handleShowFocusPopup None reminder_signal timed_out_world)) =
       Some (storedData None reminder_signal)
   \<and> emitted (handleShowFocusPopup None reminder_signal timed_out_world) =
       [FocusPopupDisplayed ''focus-mode-twitter-1001'' 0,
        FocusPopupDisplayed ''reminder-42'' 8000]
   \<and> lastShownAppId (popup (handleShowFocusPopup None reminder_signal timed_out_world)) =
       Some ''twitter''"
proof -
  have h: "appIdMatch (notificationId reminder_signal) = None"
    by (simp add: scenario_defs regex_defs)
  have e: "notificationId reminder_signal = ''reminder-42''"
    "emitted timed_out_world = [FocusPopupDisplayed ''focus-mode-twitter-1001'' 0]"
    "clock timed_out_world = 8000"
    "lastShownAppId (popup timed_out_world) = Some ''twitter''"
    by (simp_all add: scenario_defs)
  show ?thesis
    using unmatched_id_always_shown [OF h, of None timed_out_world] h e by simp
qed

subsection \<open>C9: the body text\<close>

text \<open>
  C9 as stated, for every notification data, fails in two ways. An application name that
  is present but empty is falsy, so \<^verbatim>\<open>appName || 'This app'\<close> is the default and not the
  empty name. And \<^verbatim>\<open>replace\<close> expands the replacement patterns of the application name:
  with the name \<^verbatim>\<open>$&\<close> the placeholder is replaced by the matched text, that is, by
  itself.
\<close>

theorem body_text_counterexample:
  "bodyText empty_name_data \<noteq>
     spec_substitute ''{app}'' (spec_app_label (appName empty_name_data)) (body empty_name_data)
   \<and> bodyText empty_name_data = ''This app is not allowed''
   \<and> bodyText dollar_name_data \<noteq>
     spec_substitute ''{app}'' (spec_app_label (appName dollar_name_data))
       (body dollar_name_data)
   \<and> bodyText dollar_name_data = ''{app} is not allowed''"
  by (simp add: scenario_defs bodyText_def js_replace_def)

text \<open>
  C9, amended: for every notification data whose application name contains no dollar
  sign, the rendered body text is \<^verbatim>\<open>body\<close> with the first occurrence of the literal
  \<^verbatim>\<open>{app}\<close> replaced by the application name, or by \<^verbatim>\<open>This app\<close> when the name is absent
  or empty; for the signal with body \<^verbatim>\<open>{app} is not allowed\<close> and application name
  \<^verbatim>\<open>Twitter\<close> the dialog shows \<^verbatim>\<open>Twitter is not allowed\<close>.
\<close>

theorem body_text_substituted:
  assumes "CHR ''$'' \<notin> set (orElse (appName nd) ''This app'')"
  shows "bodyText nd = spec_substitute ''{app}'' (orElse (appName nd) ''This app'') (body nd)"
  using assms by (simp add: bodyText_def js_replace_plain)

theorem body_text_substituted_witness:
  "CHR ''$'' \<notin> set (orElse (appName (storedData None twitter_signal)) ''This app'')
   \<and> bodyText (storedData None twitter_signal) = ''Twitter is not allowed''
   \<and> render None None (popup (handleShowFocusPopup None twitter_signal initial_world)) =
       Dialog \<lparr>image = None, heading = ''Blocked'', text_body = ''Twitter is not allowed'',
         quote = None\<rparr>"
proof -
  have h: "CHR ''$'' \<notin> set (orElse (appName (storedData None twitter_signal)) ''This app'')"
    by (simp add: storedData_def twitter_signal_def)
  have b: "bodyText (storedData None twitter_signal) = ''Twitter is not allowed''"
    using body_text_substituted [OF h] by (simp add: storedData_def twitter_signal_def)
  have "render None None (popup (handleShowFocusPopup None twitter_signal initial_world)) =
       Dialog \<lparr>image = None, heading = ''Blocked'',
         text_body = bodyText (storedData None twitter_signal), quote = None\<rparr>"
    by (simp add: scenario_defs regex_defs handleShowFocusPopup_def isDuplicate_def Let_def
        capture_def render_def displayImage_def js_or_def quoteBlock_def motivationalText_def
        storedData_def)
  with h b show ?thesis by simp
qed

subsection \<open>C10: the notification data is never reset\<close>

text \<open>
  C10: once notification data is stored, every execution (show signals,
  \<^verbatim>\<open>notification-dismissed\<close> signals, user dismissal, image callbacks, the dialog's
  open-change callback, timers firing, time passing, renders) ends with notification data
  stored,
  so the component never renders nothing again; and an execution from the initial world
  after which the component renders nothing has handled no show signal.
\<close>

theorem notification_data_never_reset:
  "(run as w = Some w' \<and> notificationData (popup w) \<noteq> None \<longrightarrow>
      notificationData (popup w') \<noteq> None \<and> render ci ct (popup w') \<noteq> Nothing)
   \<and> (run bs initial_world = Some w'' \<and> render ci ct (popup w'') = Nothing \<longrightarrow>
      (\<forall>x\<in>set bs. \<forall>d. snd x \<noteq> ShowFocusPopup d))"
proof -
  have "fresh initial_world"
    by (simp add: fresh_def initial_world_def initial_state_def capture_def)
  then show ?thesis
    using run_keeps_data [of as w w'] run_fresh [of bs initial_world w'']
    by (simp add: render_Nothing_iff)
qed

theorem notification_data_never_reset_witness:
  "run [(None, UserDismiss), (None, DismissedElsewhere ''focus-mode-twitter-1001''),
        (None, Rerender), (None, ShowFocusPopup twitter_signal), (None, OpenChange False)] timed_out_world \<noteq> None
   \<and> notificationData (popup timed_out_world) \<noteq> None
   \<and> notificationData (popup (the (run [(None, UserDismiss),
        (None, DismissedElsewhere ''focus-mode-twitter-1001''), (None, Rerender),
        (None, ShowFocusPopup twitter_signal), (None, OpenChange False)] timed_out_world))) \<noteq> None
   \<and> run [(None, Wait 5), (None, DismissedElsewhere ''focus-mode-twitter-1001''),
        (None, UserDismiss)] initial_world \<noteq> None
   \<and> render None None (popup (the (run [(None, Wait 5),
        (None, DismissedElsewhere ''focus-mode-twitter-1001''),
        (None, UserDismiss)] initial_world))) = Nothing"
proof -
  let ?as = "[(None, UserDismiss), (None, DismissedElsewhere ''focus-mode-twitter-1001''),
        (None, Rerender), (None, ShowFocusPopup twitter_signal), (None, OpenChange False)]"
  let ?bs = "[(None, Wait 5), (None, DismissedElsewhere ''focus-mode-twitter-1001''),
        (None, UserDismiss)]"
  obtain v where v: "run ?as timed_out_world = Some v"
    by (simp add: scenario_defs regex_defs handler_defs)
  obtain u where u: "run ?bs initial_world = Some u" and n: "render None None (popup u) = Nothing"
    by (simp add: scenario_defs regex_defs handler_defs render_def)
  have d: "notificationData (popup timed_out_world) \<noteq> None"
    by (simp add: timed_out_world_def)
  show ?thesis
    using notification_data_never_reset [of ?as timed_out_world v None None ?bs u] v u n d
    by simp
qed

end
